theory Spec2Isabelle
  imports Complex_Main "HOL-Library.Sublist"
begin

section \<open>The boat of the customizer: data model\<close>

text \<open>
  The development embeds \<^verbatim>\<open>src/client/components/BoatCustomziator/Sketch/Boat/index.ts\<close>.
  Objects of the rendering library that the class only holds by reference (textures,
  geometries, materials) live in an explicit heap and are named by addresses. A finite
  number of the language is a real number; the class stores, copies and compares numbers,
  which is exact. Where it computes in double precision (the size and the center of the
  bounding box, the norm of the size, the quotient that gives the scale) the operation is a
  parameter of the model: its rounding, overflow and non-finite results are those of the
  language and of the rendering library, whatever they are.
\<close>

type_synonym ref = nat

type_synonym vec3 = "real \<times> real \<times> real"

text \<open>
  A node of the loaded scene graph, \<^verbatim>\<open>THREE.Object3D\<close>: its type tag, its name, its local
  position and scale, the geometry and material slots (read by the class for nodes tagged
  \<^verbatim>\<open>"Mesh"\<close> only) and its children. A node has at most one parent, so the graph is a tree.
\<close>

datatype object3d =
  Object3D (type: string) (name: string) (position: vec3) (scale: vec3)
    (geometry: ref) (material: ref) (children: "object3d list")

text \<open>\<^verbatim>\<open>export type Part = THREE.Mesh<THREE.BufferGeometry, Material>\<close>: a part is a node.\<close>

type_synonym part = object3d

record gltf =
  scene :: object3d

text \<open>\<^verbatim>\<open>THREE.Texture\<close>: the two flags the class writes; \<open>rest\<close> stands for every other property.\<close>

record texture =
  flipY :: bool
  generateMipmaps :: bool
  rest :: nat

text \<open>\<^verbatim>\<open>BoatTextures\<close>: three named slots, each a reference to a texture.\<close>

record boatTextures =
  map_slot :: ref
  occlusionRoughnessMetallicMap :: ref
  metallnessMapPath :: ref

text \<open>The parameters handed to \<^verbatim>\<open>new MeshStandardMaterial({...})\<close> in \<^verbatim>\<open>addParts\<close>.\<close>

record meshStandardMaterial =
  map_texture :: ref
  roughnessMap :: ref
  metalnessMap :: ref
  opacity :: real
  transparent :: bool
  envMapIntensity :: real
  metalness :: real
  color :: vec3

text \<open>
  Modelled from the spec: the entries of \<^verbatim>\<open>CustomizationConfig.customization\<close>, declared in
  \<^verbatim>\<open>./CustomizationManager\<close>; the class reads their \<^verbatim>\<open>placeholderLabel\<close> only.
\<close>

record customization =
  placeholderLabel :: string

text \<open>
  Modelled from the spec: \<^verbatim>\<open>CustomizationConfig\<close>, declared in \<^verbatim>\<open>./CustomizationManager\<close>, with
  its two mappings \<^verbatim>\<open>transparentParts: name -> opacity\<close> and
  \<^verbatim>\<open>customization: name -> { placeholderLabel, ... }\<close>. A look-up sees the own keys of the
  mapping.
\<close>

record customizationConfig =
  transparentParts :: "string \<rightharpoonup> real"
  customization :: "string \<rightharpoonup> customization"

text \<open>
  Modelled from the spec: \<^verbatim>\<open>Placeholder\<close>, declared in \<^verbatim>\<open>./Placeholder\<close>: the key and label given
  to its constructor and the position given to \<^verbatim>\<open>setPosition\<close>, which returns the placeholder.
\<close>

record placeholder =
  key :: string
  label :: string
  localPosition :: vec3

text \<open>A number of the language as a computation may return it: finite or not.\<close>

datatype jsnumber = Finite real | Infinity | NegInfinity | NaN

type_synonym jsvec3 = "jsnumber \<times> jsnumber \<times> jsnumber"

text \<open>\<^verbatim>\<open>THREE.Box3\<close>; the empty box of the library has infinite corners.\<close>

record box3 =
  box_min :: jsvec3
  box_max :: jsvec3

text \<open>The children of the boat group: parts and placeholders.\<close>

datatype child = PartChild part | PlaceholderChild placeholder

text \<open>
  The fields of \<^verbatim>\<open>class Boat extends THREE.Group\<close>; \<open>self_scale\<close> and \<open>self_children\<close> are the
  \<^verbatim>\<open>scale\<close> and \<^verbatim>\<open>children\<close> the boat inherits as a group. The customization manager is created
  after assembly from the finished boat and is not part of the model.
\<close>

record boat =
  size_vec :: jsvec3
  boundingBox :: box3
  parts :: "part list"
  center :: jsvec3
  placeholders :: "placeholder list"
  textures :: boatTextures
  customizationConfig :: customizationConfig
  self_scale :: jsvec3
  self_children :: "child list"

text \<open>A call of a release routine, as \<^verbatim>\<open>dispose\<close> issues them.\<close>

datatype disposal =
  GeometryDispose ref | MaterialDispose ref | PlaceholderDispose placeholder

text \<open>
  The heap: the textures by address, the materials constructed so far (a material's address
  is its index, so a new one is never the address of an old one), and the log of the release
  routines called so far.
\<close>

record heap =
  texture_store :: "ref \<Rightarrow> texture"
  material_store :: "meshStandardMaterial list"
  disposals :: "disposal list"

section \<open>Query operations\<close>

text \<open>
  \<^verbatim>\<open>getPartByName(partName) { return this.parts.find((part) => part.name == partName) }\<close>;
  \<^verbatim>\<open>undefined\<close> is \<open>None\<close>.
\<close>

definition getPartByName :: "boat \<Rightarrow> string \<Rightarrow> part option" where
  "getPartByName b partName = find (\<lambda>part. name part = partName) (parts b)"

text \<open>
  \<^verbatim>\<open>forEachPart\<close> and \<^verbatim>\<open>forEachPlaceholder\<close>: the callback is run on every entry in order; its
  effect is a state transformer.
\<close>

definition forEachPart :: "(part \<Rightarrow> string \<Rightarrow> 's \<Rightarrow> 's) \<Rightarrow> boat \<Rightarrow> 's \<Rightarrow> 's" where
  "forEachPart callback b = fold (\<lambda>part. callback part (name part)) (parts b)"

definition forEachPlaceholder :: "(placeholder \<Rightarrow> 's \<Rightarrow> 's) \<Rightarrow> boat \<Rightarrow> 's \<Rightarrow> 's" where
  "forEachPlaceholder callback b = fold (\<lambda>placeholder. callback placeholder) (placeholders b)"

text \<open>
  An entry of \<^verbatim>\<open>PartSearchOptions\<close> is a string or a regular expression. The regular
  expression engine belongs to the language; a pattern is taken as the predicate
  \<^verbatim>\<open>(s) => !!s.match(option)\<close> it decides.
\<close>

datatype searchOption = Exact string | Pattern "string \<Rightarrow> bool"

fun option_matches :: "string \<Rightarrow> searchOption \<Rightarrow> bool" where
  "option_matches partName (Exact s) = (partName = s)"
| "option_matches partName (Pattern re) = re partName"

definition getMatchingParts :: "boat \<Rightarrow> searchOption list \<Rightarrow> part list" where
  "getMatchingParts b searchOptions =
     filter (\<lambda>part. list_ex (option_matches (name part)) searchOptions) (parts b)"

section \<open>Assembly\<close>

subsection \<open>Texture preparation\<close>

text \<open>
  \<^verbatim>\<open>Object.values(this.textures).forEach((texture) => { texture.flipY = false;
  texture.generateMipmaps = false; })\<close>. Every slot is visited once (the result does not
  depend on the order); two slots may hold the same texture.
\<close>

definition texture_values :: "boatTextures \<Rightarrow> ref list" where
  "texture_values t = [map_slot t, occlusionRoughnessMetallicMap t, metallnessMapPath t]"

definition prepare_texture :: "ref \<Rightarrow> heap \<Rightarrow> heap" where
  "prepare_texture a h =
     h\<lparr>texture_store := (texture_store h)
          (a := (texture_store h a)\<lparr>flipY := False, generateMipmaps := False\<rparr>)\<rparr>"

definition prepareTextures :: "boat \<times> heap \<Rightarrow> boat \<times> heap" where
  "prepareTextures bh =
     (case bh of (b, h) \<Rightarrow> (b, fold prepare_texture (texture_values (textures b)) h))"

subsection \<open>Values of the language\<close>

text \<open>
  What a look-up \<^verbatim>\<open>transparentParts[object.name]\<close> yields: \<^verbatim>\<open>undefined\<close> for a missing key, the
  number otherwise. \<open>js_or\<close> is \<^verbatim>\<open>||\<close> (a number is falsy when it is zero), \<open>js_less\<close> is \<^verbatim>\<open><\<close>
  (\<^verbatim>\<open>undefined\<close> becomes NaN, and every comparison with NaN is false).
\<close>

datatype jsvalue = Undefined | Number real

definition lookup :: "(string \<rightharpoonup> real) \<Rightarrow> string \<Rightarrow> jsvalue" where
  "lookup m k = (case m k of None \<Rightarrow> Undefined | Some v \<Rightarrow> Number v)"

fun truthy :: "jsvalue \<Rightarrow> bool" where
  "truthy Undefined = False"
| "truthy (Number r) = (r \<noteq> 0)"

definition js_or :: "jsvalue \<Rightarrow> jsvalue \<Rightarrow> jsvalue" where
  "js_or a b = (if truthy a then a else b)"

fun js_less :: "jsvalue \<Rightarrow> jsvalue \<Rightarrow> bool" where
  "js_less (Number a) (Number b) = (a < b)"
| "js_less _ _ = False"

text \<open>
  The material's constructor skips a parameter that is \<^verbatim>\<open>undefined\<close> and keeps the default
  opacity 1.
\<close>

fun set_opacity :: "jsvalue \<Rightarrow> real" where
  "set_opacity Undefined = 1"
| "set_opacity (Number r) = r"

subsection \<open>Part assembly\<close>

text \<open>Lines 84 and 85 of the source: the two parameters computed from the configuration.\<close>

definition opacity_parameter :: "customizationConfig \<Rightarrow> string \<Rightarrow> jsvalue" where
  "opacity_parameter cfg n = js_or (lookup (transparentParts cfg) n) (Number 1)"

definition transparent_parameter :: "customizationConfig \<Rightarrow> string \<Rightarrow> bool" where
  "transparent_parameter cfg n =
     (js_or (lookup (transparentParts cfg) n) (Number 1) \<noteq> Undefined \<and>
      js_less (js_or (lookup (transparentParts cfg) n) (Number 1)) (Number 1))"

text \<open>
  The transparency parameter as the specification words it, without the check that the
  value is defined: the flag is set when the looked-up value, 1 by default, is below 1.
\<close>

definition transparent_parameter_spec :: "customizationConfig \<Rightarrow> string \<Rightarrow> bool" where
  "transparent_parameter_spec cfg n =
     js_less (js_or (lookup (transparentParts cfg) n) (Number 1)) (Number 1)"

definition new_material :: "boat \<Rightarrow> string \<Rightarrow> meshStandardMaterial" where
  "new_material b n =
     \<lparr>map_texture = map_slot (textures b),
      roughnessMap = occlusionRoughnessMetallicMap (textures b),
      metalnessMap = metallnessMapPath (textures b),
      opacity = set_opacity (opacity_parameter (customizationConfig b) n),
      transparent = transparent_parameter (customizationConfig b) n,
      envMapIntensity = 1.5,
      metalness = 1.5,
      color = (1.3, 1.3, 1.3)\<rparr>"

fun set_material :: "ref \<Rightarrow> object3d \<Rightarrow> object3d" where
  "set_material r (Object3D t n p s g m cs) = Object3D t n p s g r cs"

text \<open>
  \<^verbatim>\<open>Object3D.traverse(callback)\<close> of the library calls the callback on the node, then
  traverses each child in order: the nodes in the order of their visit.
\<close>

fun traverse :: "object3d \<Rightarrow> object3d list" where
  "traverse (Object3D t n p s g m cs) = Object3D t n p s g m cs # concat (map traverse cs)"

text \<open>
  The callback of the first traversal, on the parts collected and the materials constructed
  so far: a node tagged \<^verbatim>\<open>"Mesh"\<close> gets a new material and is pushed.
\<close>

definition addParts_visit ::
  "boat \<Rightarrow> object3d \<Rightarrow> part list \<times> meshStandardMaterial list
     \<Rightarrow> part list \<times> meshStandardMaterial list" where
  "addParts_visit b object acc =
     (case acc of (ps, ms) \<Rightarrow>
        if type object = ''Mesh''
        then (ps @ [set_material (length ms) object], ms @ [new_material b (name object)])
        else acc)"

text \<open>
  \<^verbatim>\<open>this.add(...this.parts)\<close>: the library's \<^verbatim>\<open>add\<close> removes an object from its current parent
  before it makes it a child of the group. Every node tagged \<^verbatim>\<open>"Mesh"\<close> that has a parent
  leaves it, with its subtree: what stays below a node is \<open>detach\<close> of it.
\<close>

fun detach :: "object3d \<Rightarrow> object3d" where
  "detach (Object3D t n p s g m cs) =
     Object3D t n p s g m (map detach (filter (\<lambda>c. type c \<noteq> ''Mesh'') cs))"

text \<open>
  The computations of \<^verbatim>\<open>addParts\<close> that run in the rendering library or in double
  precision, taken as parameters: \<^verbatim>\<open>new THREE.Box3().setFromObject(this)\<close> on the children of
  the group, \<^verbatim>\<open>Box3.getSize\<close>, \<^verbatim>\<open>Box3.getCenter\<close>, \<^verbatim>\<open>Math.hypot(...size.toArray())\<close> and the
  division \<^verbatim>\<open>/\<close>.
\<close>

record engine =
  setFromObject :: "child list \<Rightarrow> box3"
  getSize :: "box3 \<Rightarrow> jsvec3"
  getCenter :: "box3 \<Rightarrow> jsvec3"
  hypot :: "jsvec3 \<Rightarrow> jsnumber"
  quotient :: "jsnumber \<Rightarrow> jsnumber \<Rightarrow> jsnumber"

text \<open>
  \<^verbatim>\<open>addParts(gltf)\<close>. The scale is \<^verbatim>\<open>2 / Math.hypot(...this.size.toArray())\<close>, set on the three
  components of the scale of the group, with no test of the norm before the division. The
  result is the boat, the heap and the scene graph as the call leaves it: the parts are
  detached, and the root has its new material when it is a mesh itself.
\<close>

definition addParts ::
  "engine \<Rightarrow> gltf \<Rightarrow> boat \<times> heap \<Rightarrow> (boat \<times> heap) \<times> gltf" where
  "addParts eng g bh =
     (case bh of (b, h) \<Rightarrow>
        (case fold (addParts_visit b) (traverse (scene g)) ([], material_store h) of
           (ps, ms) \<Rightarrow>
             let attached = map detach ps;
                 kids = self_children b @ map PartChild attached;
                 box = setFromObject eng kids;
                 sz = getSize eng box;
                 c = getCenter eng box;
                 s = quotient eng (Finite 2) (hypot eng sz);
                 root = (if type (scene g) = ''Mesh''
                         then set_material (length (material_store h)) (scene g)
                         else scene g)
             in ((b\<lparr>parts := attached, self_children := kids, boundingBox := box,
                     size_vec := sz, center := c, self_scale := (s, s, s)\<rparr>,
                  h\<lparr>material_store := ms\<rparr>),
                 g\<lparr>scene := detach root\<rparr>)))"

subsection \<open>Placeholder assembly\<close>

text \<open>
  The callback of the second traversal: a node tagged \<^verbatim>\<open>"Object3D"\<close> whose name has an entry
  in \<^verbatim>\<open>customizationConfig.customization\<close> gives a placeholder,
  \<^verbatim>\<open>new Placeholder(object.name, config.placeholderLabel).setPosition(object.position)\<close>;
  every other node is passed. An entry is an object, so \<^verbatim>\<open>!config\<close> holds for a missing key only.
\<close>

definition new_Placeholder :: "object3d \<Rightarrow> customization \<Rightarrow> placeholder" where
  "new_Placeholder object config =
     \<lparr>key = name object, label = placeholderLabel config, localPosition = position object\<rparr>"

definition addPlaceholders_visit :: "boat \<Rightarrow> object3d \<Rightarrow> placeholder list \<Rightarrow> placeholder list" where
  "addPlaceholders_visit b object phs =
     (if type object = ''Object3D''
      then (case customization (customizationConfig b) (name object) of
              None \<Rightarrow> phs
            | Some config \<Rightarrow> phs @ [new_Placeholder object config])
      else phs)"

text \<open>
  \<^verbatim>\<open>addPlaceholders(gltf)\<close>; within the constructor no placeholder is a child of the boat
  before the call, so \<^verbatim>\<open>this.add(...this.placeholders)\<close> appends them.
\<close>

definition addPlaceholders :: "gltf \<Rightarrow> boat \<times> heap \<Rightarrow> boat \<times> heap" where
  "addPlaceholders g bh =
     (case bh of (b, h) \<Rightarrow>
        let phs = fold (addPlaceholders_visit b) (traverse (scene g)) (placeholders b)
        in (b\<lparr>placeholders := phs,
              self_children :=
                (if phs = [] then self_children b
                 else self_children b @ map PlaceholderChild phs)\<rparr>, h))"

subsection \<open>The constructor\<close>

text \<open>
  \<^verbatim>\<open>this.prepareTextures().addParts(boatGLTF).addPlaceholders(boatGLTF)\<close> on a new group: no
  children, scale 1, no placeholders. The fields \<^verbatim>\<open>parts\<close>, \<^verbatim>\<open>size\<close>, \<^verbatim>\<open>center\<close> and
  \<^verbatim>\<open>boundingBox\<close> are first assigned by \<^verbatim>\<open>addParts\<close>; the values they start with here are
  never read. Both traversals go through the same object \<^verbatim>\<open>boatGLTF\<close>, the second one as the
  first one left it.
\<close>

definition new_group :: "boatTextures \<Rightarrow> customizationConfig \<Rightarrow> boat" where
  "new_group tex cfg =
     \<lparr>size_vec = (Finite 0, Finite 0, Finite 0),
      boundingBox = \<lparr>box_min = (Finite 0, Finite 0, Finite 0),
                     box_max = (Finite 0, Finite 0, Finite 0)\<rparr>,
      parts = [], center = (Finite 0, Finite 0, Finite 0), placeholders = [], textures = tex,
      customizationConfig = cfg, self_scale = (Finite 1, Finite 1, Finite 1),
      self_children = []\<rparr>"

definition new_Boat ::
  "engine \<Rightarrow> gltf \<Rightarrow> boatTextures \<Rightarrow> customizationConfig \<Rightarrow> heap \<Rightarrow> boat \<times> heap" where
  "new_Boat eng boatGLTF tex cfg h =
     (case addParts eng boatGLTF (prepareTextures (new_group tex cfg, h)) of
        (bh, boatGLTF') \<Rightarrow> addPlaceholders boatGLTF' bh)"

section \<open>Disposal\<close>

text \<open>
  \<^verbatim>\<open>dispose()\<close>: the release routines of the geometry and of the material of every part, then
  the routine of every placeholder. A call is recorded in the log of the heap.
\<close>

definition call :: "disposal \<Rightarrow> heap \<Rightarrow> heap" where
  "call d h = h\<lparr>disposals := disposals h @ [d]\<rparr>"

definition dispose :: "boat \<times> heap \<Rightarrow> boat \<times> heap" where
  "dispose bh =
     (case bh of (b, h) \<Rightarrow>
        (b, forEachPlaceholder (\<lambda>placeholder. call (PlaceholderDispose placeholder)) b
              (forEachPart
                 (\<lambda>part partName h'.
                    call (MaterialDispose (material part))
                      (call (GeometryDispose (geometry part)) h')) b h)))"

section \<open>A sample boat\<close>

text \<open>
  A scene with a hull that carries a seat marker and a keel, two free markers and a mast;
  the metalness and roughness slots share one texture.
\<close>

definition sample_textures :: boatTextures where
  "sample_textures = \<lparr>map_slot = 0, occlusionRoughnessMetallicMap = 1, metallnessMapPath = 1\<rparr>"

definition sample_config :: customizationConfig where
  "sample_config =
     \<lparr>transparentParts = [''Hull'' \<mapsto> 0.5, ''Keel'' \<mapsto> 0],
      customization =
        [''Seat'' \<mapsto> \<lparr>placeholderLabel = ''Seat colour''\<rparr>,
         ''Flag'' \<mapsto> \<lparr>placeholderLabel = ''Flag style''\<rparr>]\<rparr>"

definition sample_scene :: object3d where
  "sample_scene =
     Object3D ''Group'' ''Scene'' (0, 0, 0) (1, 1, 1) 0 0
       [Object3D ''Mesh'' ''Hull'' (0, 0, 0) (1, 1, 1) 10 20
          [Object3D ''Object3D'' ''Seat'' (1, 0, 0) (1, 1, 1) 0 0 [],
           Object3D ''Mesh'' ''Keel'' (0, -1, 0) (1, 1, 1) 11 20 []],
        Object3D ''Object3D'' ''Flag'' (0, 5, 0) (1, 1, 1) 0 0 [],
        Object3D ''Object3D'' ''Spare'' (0, 0, 1) (1, 1, 1) 0 0 [],
        Object3D ''Mesh'' ''Mast'' (0, 2, 0) (2, 2, 2) 12 20 []]"

definition sample_heap :: heap where
  "sample_heap =
     \<lparr>texture_store = (\<lambda>a. \<lparr>flipY = True, generateMipmaps = True, rest = a\<rparr>),
      material_store = [], disposals = []\<rparr>"

text \<open>What the library and the language return on the sample: a box of size 3 by 4 by 0.\<close>

definition sample_engine :: engine where
  "sample_engine =
     \<lparr>setFromObject =
        (\<lambda>kids. \<lparr>box_min = (Finite 0, Finite 0, Finite 0),
                  box_max = (Finite 3, Finite 4, Finite 0)\<rparr>),
      getSize = (\<lambda>box. (Finite 3, Finite 4, Finite 0)),
      getCenter = (\<lambda>box. (Finite 1.5, Finite 2, Finite 0)),
      hypot = (\<lambda>v. Finite 5),
      quotient = (\<lambda>a b. Finite 0.4)\<rparr>"

definition sample_boat :: "boat \<times> heap" where
  "sample_boat =
     new_Boat sample_engine \<lparr>scene = sample_scene\<rparr> sample_textures sample_config sample_heap"

text \<open>The sample after the first traversal alone.\<close>

definition sample_assembly :: "(boat \<times> heap) \<times> gltf" where
  "sample_assembly =
     addParts sample_engine \<lparr>scene = sample_scene\<rparr>
       (new_group sample_textures sample_config, sample_heap)"

text \<open>
  The same with a configuration whose opacities all lie in the range \<^verbatim>\<open>(0..1]\<close> of the
  interface: the hull at 0.5, no entry for the keel and the mast.
\<close>

definition ranged_config :: customizationConfig where
  "ranged_config = sample_config\<lparr>transparentParts := [''Hull'' \<mapsto> 0.5]\<rparr>"

definition ranged_assembly :: "(boat \<times> heap) \<times> gltf" where
  "ranged_assembly =
     addParts sample_engine \<lparr>scene = sample_scene\<rparr>
       (new_group sample_textures ranged_config, sample_heap)"

section \<open>Evaluation of the samples\<close>

lemmas sample_defs =
  sample_boat_def sample_assembly_def ranged_assembly_def new_Boat_def addParts_def
  prepareTextures_def addPlaceholders_def new_group_def sample_scene_def ranged_config_def
  addParts_visit_def addPlaceholders_visit_def new_Placeholder_def sample_config_def
  sample_engine_def sample_heap_def sample_textures_def texture_values_def
  prepare_texture_def Let_def

lemmas material_defs =
  new_material_def opacity_parameter_def transparent_parameter_def lookup_def js_or_def

section \<open>The first traversal\<close>

lemma set_material_sel [simp]:
  "name (set_material r n) = name n"
  "type (set_material r n) = type n"
  "geometry (set_material r n) = geometry n"
  "scale (set_material r n) = scale n"
  "position (set_material r n) = position n"
  "material (set_material r n) = r"
  by (cases n; simp)+

lemma detach_sel [simp]:
  "name (detach n) = name n"
  "type (detach n) = type n"
  "geometry (detach n) = geometry n"
  "scale (detach n) = scale n"
  "position (detach n) = position n"
  "material (detach n) = material n"
  by (cases n; simp)+

lemma addParts_visit_mesh:
  "type x = ''Mesh'' \<Longrightarrow>
     addParts_visit b x (ps, ms) =
       (ps @ [set_material (length ms) x], ms @ [new_material b (name x)])"
  by (simp add: addParts_visit_def)

lemma addParts_visit_other: "type x \<noteq> ''Mesh'' \<Longrightarrow> addParts_visit b x acc = acc"
  by (simp add: addParts_visit_def split: prod.splits)

text \<open>The parts and materials after the visit of a list of nodes, in closed form.\<close>

lemma fold_addParts_visit:
  "fold (addParts_visit b) xs (ps, ms) =
     (ps @ map (\<lambda>(i, n). set_material i n)
             (zip [length ms ..< length ms + length (filter (\<lambda>n. type n = ''Mesh'') xs)]
                  (filter (\<lambda>n. type n = ''Mesh'') xs)),
      ms @ map (\<lambda>n. new_material b (name n)) (filter (\<lambda>n. type n = ''Mesh'') xs))"
proof (induction xs arbitrary: ps ms)
  case Nil
  then show ?case by simp
next
  case (Cons x xs)
  show ?case
  proof (cases "type x = ''Mesh''")
    case True
    then show ?thesis
      by (simp add: addParts_visit_mesh Cons.IH upt_conv_Cons del: upt_Suc)
  next
    case False
    then show ?thesis
      by (simp add: addParts_visit_other Cons.IH)
  qed
qed

text \<open>What \<open>addParts\<close> leaves, field by field.\<close>

lemma addParts_result:
  assumes "addParts eng g (b, h) = ((b', h'), g')"
  shows "parts b' =
           map (\<lambda>(i, n). detach (set_material i n))
             (zip [length (material_store h) ..<
                     length (material_store h) +
                     length (filter (\<lambda>n. type n = ''Mesh'') (traverse (scene g)))]
                (filter (\<lambda>n. type n = ''Mesh'') (traverse (scene g))))"
    and "material_store h' =
           material_store h @
           map (\<lambda>n. new_material b (name n)) (filter (\<lambda>n. type n = ''Mesh'') (traverse (scene g)))"
    and "texture_store h' = texture_store h"
    and "disposals h' = disposals h"
    and "self_children b' = self_children b @ map PartChild (parts b')"
    and "boundingBox b' = setFromObject eng (self_children b')"
    and "size_vec b' = getSize eng (boundingBox b')"
    and "center b' = getCenter eng (boundingBox b')"
    and "self_scale b' =
           (quotient eng (Finite 2) (hypot eng (size_vec b')),
            quotient eng (Finite 2) (hypot eng (size_vec b')),
            quotient eng (Finite 2) (hypot eng (size_vec b')))"
    and "placeholders b' = placeholders b"
    and "textures b' = textures b"
    and "customizationConfig b' = customizationConfig b"
    and "scene g' =
           detach (if type (scene g) = ''Mesh''
                   then set_material (length (material_store h)) (scene g) else scene g)"
  using assms by (auto simp add: addParts_def fold_addParts_visit Let_def)

lemma map_zip_snd:
  "length ks = length ns \<Longrightarrow> map (\<lambda>(i, n). f n) (zip ks ns) = map f ns"
  by (induction ks ns rule: list_induct2) simp_all

lemma map_zip_fst:
  "length ks = length ns \<Longrightarrow> map (\<lambda>(i, n). f i) (zip ks ns) = map f ks"
  by (induction ks ns rule: list_induct2) simp_all

lemma parts_fields_of_addParts:
  assumes "addParts eng g (b, h) = ((b', h'), g')"
  shows "map name (parts b') = map name (filter (\<lambda>n. type n = ''Mesh'') (traverse (scene g)))"
    and "map geometry (parts b') =
           map geometry (filter (\<lambda>n. type n = ''Mesh'') (traverse (scene g)))"
    and "map scale (parts b') = map scale (filter (\<lambda>n. type n = ''Mesh'') (traverse (scene g)))"
    and "map material (parts b') =
           [length (material_store h) ..<
              length (material_store h) +
              length (filter (\<lambda>n. type n = ''Mesh'') (traverse (scene g)))]"
  by (simp_all add: addParts_result(1)[OF assms] comp_def case_prod_unfold
      map_zip_snd[unfolded case_prod_unfold]
      map_zip_fst[where f = "\<lambda>i. i", unfolded case_prod_unfold])

lemma material_of_nth_part:
  assumes "addParts eng g (b, h) = ((b', h'), g')" and "i < length (parts b')"
  shows "material_store h' ! material (parts b' ! i) = new_material b (name (parts b' ! i))"
proof -
  let ?meshes = "filter (\<lambda>n. type n = ''Mesh'') (traverse (scene g))"
  have len: "length (parts b') = length ?meshes"
    using parts_fields_of_addParts(1)[OF assms(1)] by (metis length_map)
  have "material (parts b' ! i) = map material (parts b') ! i"
    using assms(2) by simp
  also have "\<dots> = length (material_store h) + i"
    using assms(2) len by (simp add: parts_fields_of_addParts(4)[OF assms(1)])
  finally have m: "material (parts b' ! i) = length (material_store h) + i" .
  have "name (parts b' ! i) = map name (parts b') ! i"
    using assms(2) by simp
  also have "\<dots> = name (?meshes ! i)"
    using assms(2) len by (simp add: parts_fields_of_addParts(1)[OF assms(1)])
  finally have n: "name (parts b' ! i) = name (?meshes ! i)" .
  show ?thesis
    using assms(2) len by (simp add: m n addParts_result(2)[OF assms(1)])
qed

lemma material_of_part:
  assumes "addParts eng g (b, h) = ((b', h'), g')" and "p \<in> set (parts b')"
  shows "material_store h' ! material p = new_material b (name p)"
  using assms(2) material_of_nth_part[OF assms(1)] by (auto simp add: in_set_conv_nth)

text \<open>The second traversal leaves the parts and the materials as the first one made them.\<close>

lemma constructor_parts:
  "parts (fst (new_Boat eng g tex cfg h)) =
     parts (fst (fst (addParts eng g (new_group tex cfg, snd (prepareTextures (new_group tex cfg, h))))))"
  "material_store (snd (new_Boat eng g tex cfg h)) =
     material_store (snd (fst (addParts eng g
       (new_group tex cfg, snd (prepareTextures (new_group tex cfg, h))))))"
  by (simp_all add: new_Boat_def prepareTextures_def addPlaceholders_def Let_def
      split: prod.splits)

text \<open>
  C1. After \<open>addParts\<close> on a scene graph with k nodes tagged \<^verbatim>\<open>"Mesh"\<close>, \<open>parts\<close> has k entries,
  the mesh nodes in the order of the traversal (same names, same geometries); their materials
  are pairwise different instances, each constructed by this call (its address is none of
  the heap before the call, and the materials that were there are untouched) from the
  parameters of the part's name. The constructed boat has these parts: as many as the graph
  has meshes, in the order of the traversal, no two with the same material.
\<close>

theorem addParts_collects_meshes:
  "case addParts eng g (b, h) of
     ((b', h'), g') \<Rightarrow>
       length (parts b') = length (filter (\<lambda>n. type n = ''Mesh'') (traverse (scene g))) \<and>
       map name (parts b') = map name (filter (\<lambda>n. type n = ''Mesh'') (traverse (scene g))) \<and>
       map geometry (parts b') =
         map geometry (filter (\<lambda>n. type n = ''Mesh'') (traverse (scene g))) \<and>
       distinct (map material (parts b')) \<and>
       (\<forall>p \<in> set (parts b').
          length (material_store h) \<le> material p \<and> material p < length (material_store h')) \<and>
       (\<forall>i < length (parts b').
          material_store h' ! material (parts b' ! i) = new_material b (name (parts b' ! i))) \<and>
       take (length (material_store h)) (material_store h') = material_store h \<and>
       length (parts (fst (new_Boat eng g tex cfg h))) =
         length (filter (\<lambda>n. type n = ''Mesh'') (traverse (scene g))) \<and>
       map name (parts (fst (new_Boat eng g tex cfg h))) =
         map name (filter (\<lambda>n. type n = ''Mesh'') (traverse (scene g))) \<and>
       distinct (map material (parts (fst (new_Boat eng g tex cfg h))))"
proof -
  obtain b' h' g' where r: "addParts eng g (b, h) = ((b', h'), g')"
    by (metis surj_pair)
  let ?meshes = "filter (\<lambda>n. type n = ''Mesh'') (traverse (scene g))"
  obtain b1 h1 g1 where r1:
    "addParts eng g (new_group tex cfg, snd (prepareTextures (new_group tex cfg, h))) =
       ((b1, h1), g1)"
    by (metis surj_pair)
  have c: "parts (fst (new_Boat eng g tex cfg h)) = parts b1"
    by (simp add: constructor_parts(1) r1)
  have cnames: "map name (parts b1) = map name ?meshes"
    by (rule parts_fields_of_addParts(1)[OF r1])
  have clen: "length (parts b1) = length ?meshes"
    using cnames by (metis length_map)
  have cdist: "distinct (map material (parts b1))"
    by (simp add: parts_fields_of_addParts(4)[OF r1])
  have names: "map name (parts b') = map name ?meshes"
    by (rule parts_fields_of_addParts(1)[OF r])
  have len: "length (parts b') = length ?meshes"
    using names by (metis length_map)
  have geos: "map geometry (parts b') = map geometry ?meshes"
    by (rule parts_fields_of_addParts(2)[OF r])
  have mats: "map material (parts b') =
      [length (material_store h) ..< length (material_store h) + length ?meshes]"
    by (rule parts_fields_of_addParts(4)[OF r])
  have dist: "distinct (map material (parts b'))"
    by (simp add: mats)
  have store: "material_store h' = material_store h @ map (\<lambda>n. new_material b (name n)) ?meshes"
    by (rule addParts_result(2)[OF r])
  have fresh: "\<forall>p \<in> set (parts b').
      length (material_store h) \<le> material p \<and> material p < length (material_store h')"
  proof
    fix p assume "p \<in> set (parts b')"
    then have "material p \<in> set (map material (parts b'))" by simp
    then show "length (material_store h) \<le> material p \<and> material p < length (material_store h')"
      by (simp add: mats store)
  qed
  have built: "\<forall>i < length (parts b').
      material_store h' ! material (parts b' ! i) = new_material b (name (parts b' ! i))"
    using material_of_nth_part[OF r] by blast
  have old: "take (length (material_store h)) (material_store h') = material_store h"
    by (simp add: store)
  show ?thesis
    using len names geos dist fresh built old clen cnames cdist by (simp add: r c)
qed

theorem addParts_collects_meshes_witness:
  "map name (filter (\<lambda>n. type n = ''Mesh'') (traverse sample_scene)) =
     [''Hull'', ''Keel'', ''Mast''] \<and>
   map name (parts (fst (fst sample_assembly))) = [''Hull'', ''Keel'', ''Mast''] \<and>
   map material (parts (fst (fst sample_assembly))) = [0, 1, 2] \<and>
   length (material_store (snd (fst sample_assembly))) = 3 \<and>
   map name (parts (fst sample_boat)) = [''Hull'', ''Keel'', ''Mast''] \<and>
   map material (parts (fst sample_boat)) = [0, 1, 2]"
  using addParts_collects_meshes[where eng = sample_engine
      and g = "\<lparr>scene = sample_scene\<rparr>" and b = "new_group sample_textures sample_config"
      and h = sample_heap and tex = sample_textures and cfg = sample_config]
  by (simp add: sample_defs)

section \<open>Opacity and transparency\<close>

lemma js_or_defined: "js_or v (Number 1) \<noteq> Undefined"
  by (cases v) (simp_all add: js_or_def)

lemma new_material_opacity:
  "opacity (new_material b n) =
     (case transparentParts (customizationConfig b) n of
        None \<Rightarrow> 1 | Some v \<Rightarrow> if v = 0 then 1 else v)"
  "transparent (new_material b n) = (opacity (new_material b n) < 1)"
  by (simp_all add: material_defs split: option.splits)

text \<open>
  C4. For a configuration of the interface, whose opacities in \<^verbatim>\<open>transparentParts\<close> all lie
  in the range \<^verbatim>\<open>(0..1]\<close>: the opacity of the material of every part is the value found
  under the part's name, and 1 when the name is absent; the material is transparent exactly
  when that value is below 1.
\<close>

theorem part_opacity_rule:
  assumes "\<And>n v. transparentParts (customizationConfig b) n = Some v \<Longrightarrow> 0 < v \<and> v \<le> 1"
  shows "case addParts eng g (b, h) of
     ((b', h'), g') \<Rightarrow>
       \<forall>p \<in> set (parts b').
         opacity (material_store h' ! material p) =
           (case transparentParts (customizationConfig b) (name p) of
              None \<Rightarrow> 1 | Some v \<Rightarrow> v) \<and>
         transparent (material_store h' ! material p) =
           ((case transparentParts (customizationConfig b) (name p) of
               None \<Rightarrow> 1 | Some v \<Rightarrow> v) < 1)"
proof -
  obtain b' h' g' where r: "addParts eng g (b, h) = ((b', h'), g')"
    by (metis surj_pair)
  have o: "opacity (new_material b n) =
      (case transparentParts (customizationConfig b) n of None \<Rightarrow> 1 | Some v \<Rightarrow> v)" for n
  proof (cases "transparentParts (customizationConfig b) n")
    case None
    then show ?thesis by (simp add: new_material_opacity(1))
  next
    case (Some v)
    with assms have "v \<noteq> 0" by fastforce
    with Some show ?thesis by (simp add: new_material_opacity(1))
  qed
  have t: "transparent (new_material b n) =
      ((case transparentParts (customizationConfig b) n of None \<Rightarrow> 1 | Some v \<Rightarrow> v) < 1)" for n
    by (simp only: new_material_opacity(2) o)
  show ?thesis
    by (simp add: r material_of_part[OF r] o t)
qed

theorem part_opacity_rule_witness:
  "map (\<lambda>p. (name p, transparentParts ranged_config (name p),
             opacity (material_store (snd (fst ranged_assembly)) ! material p),
             transparent (material_store (snd (fst ranged_assembly)) ! material p)))
     (parts (fst (fst ranged_assembly))) =
     [(''Hull'', Some 0.5, 0.5, True), (''Keel'', None, 1, False), (''Mast'', None, 1, False)]"
proof -
  have range: "0 < v \<and> v \<le> 1"
    if "transparentParts (customizationConfig (new_group sample_textures ranged_config)) n = Some v"
    for n v
    using that
    by (simp add: new_group_def ranged_config_def sample_config_def split: if_splits)
  show ?thesis
    using part_opacity_rule[where eng = sample_engine and g = "\<lparr>scene = sample_scene\<rparr>"
        and b = "new_group sample_textures ranged_config" and h = sample_heap, OF range]
    by (simp add: sample_defs material_defs)
qed

text \<open>
  C5. After the fall-back to 1 the value is never \<^verbatim>\<open>undefined\<close>, so the check that it is
  defined always holds, and the transparency parameter of the source equals the one
  computed without that check, for every configuration and every name.
\<close>

theorem transparent_check_dead:
  "js_or (lookup (transparentParts cfg) n) (Number 1) \<noteq> Undefined \<and>
   transparent_parameter cfg n = transparent_parameter_spec cfg n"
  by (simp add: transparent_parameter_def transparent_parameter_spec_def js_or_defined)

text \<open>
  C9. A part whose name is mapped to 0 in \<^verbatim>\<open>transparentParts\<close> gets a material of opacity 1
  that is not transparent: the very material it gets when its name is removed from the map.
\<close>

theorem zero_opacity_falls_back:
  "case addParts eng g (b, h) of
     ((b', h'), g') \<Rightarrow>
       \<forall>p \<in> set (parts b').
         transparentParts (customizationConfig b) (name p) = Some 0 \<longrightarrow>
           opacity (material_store h' ! material p) = 1 \<and>
           \<not> transparent (material_store h' ! material p) \<and>
           material_store h' ! material p =
             new_material
               (b\<lparr>customizationConfig := (customizationConfig b)
                    \<lparr>transparentParts :=
                       (transparentParts (customizationConfig b))(name p := None)\<rparr>\<rparr>)
               (name p)"
proof -
  obtain b' h' g' where r: "addParts eng g (b, h) = ((b', h'), g')"
    by (metis surj_pair)
  have "new_material b n =
      new_material
        (b\<lparr>customizationConfig := (customizationConfig b)
             \<lparr>transparentParts := (transparentParts (customizationConfig b))(n := None)\<rparr>\<rparr>) n"
    if "transparentParts (customizationConfig b) n = Some 0" for n
    using that by (simp add: material_defs)
  then show ?thesis
    by (simp add: r material_of_part[OF r] new_material_opacity)
qed

theorem zero_opacity_falls_back_witness:
  "parts (fst (fst sample_assembly)) ! 1 \<in> set (parts (fst (fst sample_assembly))) \<and>
   transparentParts (customizationConfig (new_group sample_textures sample_config))
     (name (parts (fst (fst sample_assembly)) ! 1)) = Some 0 \<and>
   opacity (material_store (snd (fst sample_assembly)) !
      material (parts (fst (fst sample_assembly)) ! 1)) = 1 \<and>
   \<not> transparent (material_store (snd (fst sample_assembly)) !
      material (parts (fst (fst sample_assembly)) ! 1))"
  using zero_opacity_falls_back[where eng = sample_engine
      and g = "\<lparr>scene = sample_scene\<rparr>" and b = "new_group sample_textures sample_config"
      and h = sample_heap]
  by (simp add: sample_defs material_defs)

section \<open>The second traversal\<close>

lemma addPlaceholders_visit_step:
  "addPlaceholders_visit b x phs =
     phs @ map (\<lambda>n. new_Placeholder n (the (customization (customizationConfig b) (name n))))
             (filter (\<lambda>n. type n = ''Object3D'' \<and>
                          name n \<in> dom (customization (customizationConfig b))) [x])"
  by (auto simp add: addPlaceholders_visit_def split: option.splits)

lemma fold_addPlaceholders_visit:
  "fold (addPlaceholders_visit b) xs phs =
     phs @ map (\<lambda>n. new_Placeholder n (the (customization (customizationConfig b) (name n))))
             (filter (\<lambda>n. type n = ''Object3D'' \<and>
                          name n \<in> dom (customization (customizationConfig b))) xs)"
proof (induction xs arbitrary: phs)
  case Nil
  then show ?case by simp
next
  case (Cons x xs)
  have "fold (addPlaceholders_visit b) (x # xs) phs
          = fold (addPlaceholders_visit b) xs (addPlaceholders_visit b x phs)"
    by simp
  also have "\<dots> = addPlaceholders_visit b x phs @
      map (\<lambda>n. new_Placeholder n (the (customization (customizationConfig b) (name n))))
        (filter (\<lambda>n. type n = ''Object3D'' \<and>
                     name n \<in> dom (customization (customizationConfig b))) xs)"
    by (rule Cons.IH)
  finally show ?case
    by (simp only: addPlaceholders_visit_step[of b x phs]) simp
qed

lemma subseq_concat_filter:
  assumes "\<And>c. c \<in> set cs \<Longrightarrow> subseq (F c) (G c)"
  shows "subseq (concat (map F (filter Q cs))) (concat (map G cs))"
  using assms
proof (induction cs)
  case Nil
  then show ?case by simp
next
  case (Cons c cs)
  have tail: "subseq (concat (map F (filter Q cs))) (concat (map G cs))"
    using Cons by simp
  show ?case
  proof (cases "Q c")
    case True
    have "subseq (F c) (G c)" using Cons.prems by simp
    then show ?thesis
      using True tail by (simp add: list_emb_append_mono)
  next
    case False
    then show ?thesis
      using tail by (simp add: list_emb_append2)
  qed
qed

text \<open>
  What the second traversal reads of a node is its type tag, its name and its position. The
  nodes it still finds after the meshes were moved are among those of the loaded graph, in
  the same order.
\<close>

lemma traverse_detach_subseq:
  "subseq (map (\<lambda>n. (type n, name n, position n)) (traverse (detach n)))
          (map (\<lambda>n. (type n, name n, position n)) (traverse n))"
proof (induction n)
  case (Object3D t nm p s g m cs)
  have "subseq
      (concat (map (\<lambda>c. map (\<lambda>n. (type n, name n, position n)) (traverse (detach c)))
         (filter (\<lambda>c. type c \<noteq> ''Mesh'') cs)))
      (concat (map (\<lambda>c. map (\<lambda>n. (type n, name n, position n)) (traverse c)) cs))"
    by (rule subseq_concat_filter) (simp add: Object3D.IH)
  then show ?case
    by (simp add: map_concat comp_def)
qed

lemma traverse_detach_set_material:
  "map (\<lambda>n. (type n, name n, position n)) (traverse (detach (set_material r n))) =
   map (\<lambda>n. (type n, name n, position n)) (traverse (detach n))"
  by (cases n) simp

lemma placeholders_through_view:
  "map (\<lambda>n. new_Placeholder n (the (customization cfg (name n))))
     (filter (\<lambda>n. type n = ''Object3D'' \<and> name n \<in> dom (customization cfg)) xs) =
   map (\<lambda>(t, nm, pos). \<lparr>key = nm, label = placeholderLabel (the (customization cfg nm)),
                          localPosition = pos\<rparr>)
     (filter (\<lambda>(t, nm, pos). t = ''Object3D'' \<and> nm \<in> dom (customization cfg))
        (map (\<lambda>n. (type n, name n, position n)) xs))"
  by (induction xs) (simp_all add: new_Placeholder_def)

lemma addPlaceholders_placeholders:
  "placeholders (fst (addPlaceholders g (b, h))) =
     placeholders b @
     map (\<lambda>n. new_Placeholder n (the (customization (customizationConfig b) (name n))))
       (filter (\<lambda>n. type n = ''Object3D'' \<and>
                    name n \<in> dom (customization (customizationConfig b)))
          (traverse (scene g)))"
  by (simp add: addPlaceholders_def Let_def fold_addPlaceholders_visit)

lemma prepareTextures_boat: "fst (prepareTextures (b, h)) = b"
  by (simp add: prepareTextures_def)

lemma constructor_placeholders_view:
  "placeholders (fst (new_Boat eng g tex cfg h)) =
     map (\<lambda>(t, nm, pos). \<lparr>key = nm, label = placeholderLabel (the (customization cfg nm)),
                          localPosition = pos\<rparr>)
     (filter (\<lambda>(t, nm, pos). t = ''Object3D'' \<and> nm \<in> dom (customization cfg))
        (map (\<lambda>n. (type n, name n, position n)) (traverse (detach (scene g)))))"
proof -
  obtain b0 h0 where p: "prepareTextures (new_group tex cfg, h) = (b0, h0)"
    by (metis surj_pair)
  have b0: "b0 = new_group tex cfg"
    using prepareTextures_boat[of "new_group tex cfg" h] p by simp
  obtain b1 h1 g1 where r: "addParts eng g (b0, h0) = ((b1, h1), g1)"
    by (metis surj_pair)
  note f = addParts_result[OF r]
  have cfg1: "customizationConfig b1 = cfg" and ph1: "placeholders b1 = []"
    by (simp_all add: f(10) f(12) b0 new_group_def)
  have view: "map (\<lambda>n. (type n, name n, position n)) (traverse (scene g1)) =
      map (\<lambda>n. (type n, name n, position n)) (traverse (detach (scene g)))"
    by (simp add: f(13) traverse_detach_set_material)
  have "placeholders (fst (new_Boat eng g tex cfg h)) =
      placeholders (fst (addPlaceholders g1 (b1, h1)))"
    by (simp add: new_Boat_def p r)
  also have "\<dots> =
      map (\<lambda>n. new_Placeholder n (the (customization cfg (name n))))
       (filter (\<lambda>n. type n = ''Object3D'' \<and> name n \<in> dom (customization cfg))
          (traverse (scene g1)))"
    by (simp add: addPlaceholders_placeholders cfg1 ph1)
  finally show ?thesis
    by (simp only: placeholders_through_view view)
qed

lemma length_filter_conj_le: "length (filter (\<lambda>n. P n \<and> Q n) xs) \<le> length (filter P xs)"
  by (induction xs) (simp_all add: le_SucI)

text \<open>
  What the two levels yield. \<open>addPlaceholders\<close> appends one placeholder for every node tagged
  \<^verbatim>\<open>"Object3D"\<close> of the graph it traverses whose name is a key of
  \<^verbatim>\<open>customizationConfig.customization\<close>, in the order of the traversal, and nothing for any
  other node. In the constructor it traverses the graph as \<open>addParts\<close> left it, that is
  without the meshes that had a parent and without what lies below them.
\<close>

lemma placeholders_collected:
  "placeholders (fst (addPlaceholders g' (b, h'))) =
     placeholders b @
     map (\<lambda>n. new_Placeholder n (the (customization (customizationConfig b) (name n))))
       (filter (\<lambda>n. type n = ''Object3D'' \<and>
                    name n \<in> dom (customization (customizationConfig b)))
          (traverse (scene g'))) \<and>
   placeholders (fst (new_Boat eng g tex cfg h)) =
     map (\<lambda>n. new_Placeholder n (the (customization cfg (name n))))
       (filter (\<lambda>n. type n = ''Object3D'' \<and> name n \<in> dom (customization cfg))
          (traverse (detach (scene g)))) \<and>
   subseq (placeholders (fst (new_Boat eng g tex cfg h)))
     (map (\<lambda>n. new_Placeholder n (the (customization cfg (name n))))
        (filter (\<lambda>n. type n = ''Object3D'' \<and> name n \<in> dom (customization cfg))
           (traverse (scene g)))) \<and>
   length (placeholders (fst (new_Boat eng g tex cfg h))) \<le>
     length (filter (\<lambda>n. type n = ''Object3D'') (traverse (scene g)))"
proof (intro conjI)
  let ?mk = "\<lambda>n. new_Placeholder n (the (customization cfg (name n)))"
  let ?P = "\<lambda>n. type n = ''Object3D'' \<and> name n \<in> dom (customization cfg)"
  let ?ph = "placeholders (fst (new_Boat eng g tex cfg h))"
  show "placeholders (fst (addPlaceholders g' (b, h'))) =
     placeholders b @
     map (\<lambda>n. new_Placeholder n (the (customization (customizationConfig b) (name n))))
       (filter (\<lambda>n. type n = ''Object3D'' \<and>
                    name n \<in> dom (customization (customizationConfig b)))
          (traverse (scene g')))"
    by (rule addPlaceholders_placeholders)
  show "?ph = map ?mk (filter ?P (traverse (detach (scene g))))"
    by (simp only: constructor_placeholders_view placeholders_through_view)
  show sub: "subseq ?ph (map ?mk (filter ?P (traverse (scene g))))"
    unfolding constructor_placeholders_view placeholders_through_view
    by (rule subseq_map, rule subseq_filter, rule traverse_detach_subseq)
  have "length ?ph \<le> length (map ?mk (filter ?P (traverse (scene g))))"
    by (rule list_emb_length[OF sub])
  also have "\<dots> = length (filter ?P (traverse (scene g)))"
    by (rule length_map)
  also have "\<dots> \<le> length (filter (\<lambda>n. type n = ''Object3D'') (traverse (scene g)))"
    by (rule length_filter_conj_le)
  finally show "length ?ph \<le> length (filter (\<lambda>n. type n = ''Object3D'') (traverse (scene g)))" .
qed

text \<open>
  C3. The placeholders of the boat should be the transform nodes of the loaded graph whose
  name has an entry in the configuration, in the order of the traversal. The constructor
  loses those below a mesh: in the sample the marker \<^verbatim>\<open>Seat\<close> is a child of the mesh \<^verbatim>\<open>Hull\<close>
  and has an entry; the transform nodes of the loaded graph with an entry are \<^verbatim>\<open>Seat\<close> and
  \<^verbatim>\<open>Flag\<close>, and the boat has the placeholder \<^verbatim>\<open>Flag\<close> only. \<open>addPlaceholders\<close> alone, on the
  loaded graph, finds both.
\<close>

theorem placeholder_below_mesh_lost:
  "map name (filter (\<lambda>n. type n = ''Object3D'' \<and> name n \<in> dom (customization sample_config))
      (traverse sample_scene)) = [''Seat'', ''Flag''] \<and>
   map key (placeholders (fst sample_boat)) = [''Flag''] \<and>
   map key (placeholders (fst (addPlaceholders \<lparr>scene = sample_scene\<rparr>
      (new_group sample_textures sample_config, sample_heap)))) = [''Seat'', ''Flag'']"
  by (simp add: sample_defs)

section \<open>Queries\<close>

text \<open>
  C6. \<open>getPartByName\<close> returns nothing exactly when no part has the name, and returns a part
  exactly when it is the first one of \<open>parts\<close> with that name; on an empty \<open>parts\<close> it
  returns nothing.
\<close>

theorem getPartByName_first_match:
  "(getPartByName b partName = None \<longleftrightarrow> \<not> (\<exists>p \<in> set (parts b). name p = partName)) \<and>
   (\<forall>p. getPartByName b partName = Some p \<longleftrightarrow>
      (\<exists>i < length (parts b). parts b ! i = p \<and> name p = partName \<and>
         (\<forall>j < i. name (parts b ! j) \<noteq> partName))) \<and>
   (parts b = [] \<longrightarrow> getPartByName b partName = None)"
  by (auto simp add: getPartByName_def find_None_iff find_Some_iff)

theorem getPartByName_first_match_witness:
  "map name (parts (fst sample_boat)) = [''Hull'', ''Keel'', ''Mast''] \<and>
   getPartByName (fst sample_boat) ''Mast'' = Some (parts (fst sample_boat) ! 2) \<and>
   getPartByName (fst sample_boat) ''Rudder'' = None \<and>
   parts (new_group sample_textures sample_config) = [] \<and>
   getPartByName (new_group sample_textures sample_config) ''Mast'' = None"
  using getPartByName_first_match[of "fst sample_boat" "''Mast''"]
    getPartByName_first_match[of "fst sample_boat" "''Rudder''"]
    getPartByName_first_match[of "new_group sample_textures sample_config" "''Mast''"]
  by (simp add: getPartByName_def sample_defs)

lemma count_list_filter:
  "count_list (filter P xs) p = (if P p then count_list xs p else 0)"
  by (induction xs) auto

text \<open>
  C7. \<open>getMatchingParts\<close> returns the entries of \<open>parts\<close> at exactly the positions whose name
  satisfies at least one of the search options, in the order of \<open>parts\<close>: a subsequence of
  \<open>parts\<close> in which a part with a matching name occurs as often as in \<open>parts\<close>, however many
  options it matches, and any other part does not occur.
\<close>

theorem getMatchingParts_filter:
  "getMatchingParts b searchOptions =
     nths (parts b)
       {i. i < length (parts b) \<and>
           (\<exists>option \<in> set searchOptions. option_matches (name (parts b ! i)) option)} \<and>
   subseq (getMatchingParts b searchOptions) (parts b) \<and>
   (\<forall>p. count_list (getMatchingParts b searchOptions) p =
      (if \<exists>option \<in> set searchOptions. option_matches (name p) option
       then count_list (parts b) p else 0))"
proof (intro conjI allI)
  show "getMatchingParts b searchOptions =
     nths (parts b)
       {i. i < length (parts b) \<and>
           (\<exists>option \<in> set searchOptions. option_matches (name (parts b ! i)) option)}"
    by (simp add: getMatchingParts_def filter_eq_nths list_ex_iff)
  show "subseq (getMatchingParts b searchOptions) (parts b)"
    by (simp add: getMatchingParts_def)
  show "count_list (getMatchingParts b searchOptions) p =
      (if \<exists>option \<in> set searchOptions. option_matches (name p) option
       then count_list (parts b) p else 0)" for p
    by (simp add: getMatchingParts_def count_list_filter list_ex_iff)
qed

theorem getMatchingParts_filter_witness:
  "map name (parts (fst sample_boat)) = [''Hull'', ''Keel'', ''Mast''] \<and>
   map name (getMatchingParts (fst sample_boat)
      [Exact ''Hull'', Pattern (\<lambda>s. take 1 s = ''M''), Pattern (\<lambda>s. take 2 s = ''Ma'')])
     = [''Hull'', ''Mast''] \<and>
   subseq (getMatchingParts (fst sample_boat)
      [Exact ''Hull'', Pattern (\<lambda>s. take 1 s = ''M''), Pattern (\<lambda>s. take 2 s = ''Ma'')])
     (parts (fst sample_boat))"
proof -
  have "map name (parts (fst sample_boat)) = [''Hull'', ''Keel'', ''Mast''] \<and>
    map name (getMatchingParts (fst sample_boat)
      [Exact ''Hull'', Pattern (\<lambda>s. take 1 s = ''M''), Pattern (\<lambda>s. take 2 s = ''Ma'')])
     = [''Hull'', ''Mast'']"
    by (simp add: getMatchingParts_def sample_defs)
  then show ?thesis
    using getMatchingParts_filter[of "fst sample_boat"
      "[Exact ''Hull'', Pattern (\<lambda>s. take 1 s = ''M''), Pattern (\<lambda>s. take 2 s = ''Ma'')]"]
    by blast
qed

section \<open>Texture preparation\<close>





section \<open>Disposal\<close>

lemma disposals_fold_parts:
  "disposals (fold (\<lambda>part h'. call (MaterialDispose (material part))
                               (call (GeometryDispose (geometry part)) h')) ps h) =
     disposals h @
     concat (map (\<lambda>p. [GeometryDispose (geometry p), MaterialDispose (material p)]) ps)"
  by (induction ps arbitrary: h) (simp_all add: call_def)

lemma disposals_fold_placeholders:
  "disposals (fold (\<lambda>placeholder. call (PlaceholderDispose placeholder)) phs h) =
     disposals h @ map PlaceholderDispose phs"
  by (induction phs arbitrary: h) (simp_all add: call_def)

lemma dispose_result:
  "fst (dispose (b, h)) = b"
  "disposals (snd (dispose (b, h))) =
     disposals h @
     concat (map (\<lambda>p. [GeometryDispose (geometry p), MaterialDispose (material p)]) (parts b)) @
     map PlaceholderDispose (placeholders b)"
  by (simp_all add: dispose_def forEachPart_def forEachPlaceholder_def
      disposals_fold_parts disposals_fold_placeholders)

text \<open>
  C10. \<open>dispose\<close> calls the release routine of the geometry and of the material of every
  part, in the order of \<open>parts\<close>, then the routine of every placeholder, and leaves the boat
  as it was, \<open>parts\<close> and \<open>placeholders\<close> included; a second \<open>dispose\<close> issues the same calls
  once more.
\<close>

theorem dispose_twice:
  "fst (dispose (b, h)) = b \<and>
   parts (fst (dispose (b, h))) = parts b \<and>
   placeholders (fst (dispose (b, h))) = placeholders b \<and>
   disposals (snd (dispose (b, h))) =
     disposals h @
     concat (map (\<lambda>p. [GeometryDispose (geometry p), MaterialDispose (material p)]) (parts b)) @
     map PlaceholderDispose (placeholders b) \<and>
   disposals (snd (dispose (dispose (b, h)))) =
     disposals h @
     concat (map (\<lambda>p. [GeometryDispose (geometry p), MaterialDispose (material p)]) (parts b)) @
     map PlaceholderDispose (placeholders b) @
     concat (map (\<lambda>p. [GeometryDispose (geometry p), MaterialDispose (material p)]) (parts b)) @
     map PlaceholderDispose (placeholders b)"
proof -
  have d: "dispose (b, h) = (b, snd (dispose (b, h)))"
    using dispose_result(1)[of b h] by (metis prod.collapse)
  have "disposals (snd (dispose (dispose (b, h)))) =
      disposals (snd (dispose (b, h))) @
      concat (map (\<lambda>p. [GeometryDispose (geometry p), MaterialDispose (material p)]) (parts b)) @
      map PlaceholderDispose (placeholders b)"
    by (subst d) (rule dispose_result(2))
  then show ?thesis
    by (simp add: dispose_result)
qed

theorem dispose_twice_witness:
  "disposals (snd (dispose sample_boat)) =
     [GeometryDispose 10, MaterialDispose 0, GeometryDispose 11, MaterialDispose 1,
      GeometryDispose 12, MaterialDispose 2,
      PlaceholderDispose \<lparr>key = ''Flag'', label = ''Flag style'', localPosition = (0, 5, 0)\<rparr>] \<and>
   disposals (snd (dispose (dispose sample_boat))) =
     [GeometryDispose 10, MaterialDispose 0, GeometryDispose 11, MaterialDispose 1,
      GeometryDispose 12, MaterialDispose 2,
      PlaceholderDispose \<lparr>key = ''Flag'', label = ''Flag style'', localPosition = (0, 5, 0)\<rparr>,
      GeometryDispose 10, MaterialDispose 0, GeometryDispose 11, MaterialDispose 1,
      GeometryDispose 12, MaterialDispose 2,
      PlaceholderDispose \<lparr>key = ''Flag'', label = ''Flag style'', localPosition = (0, 5, 0)\<rparr>]"
proof -
  have p: "map (\<lambda>p. (geometry p, material p)) (parts (fst sample_boat)) =
      [(10, 0), (11, 1), (12, 2)]"
    and ph: "placeholders (fst sample_boat) =
      [\<lparr>key = ''Flag'', label = ''Flag style'', localPosition = (0, 5, 0)\<rparr>]"
    and d: "disposals (snd sample_boat) = []"
    by (simp_all add: sample_defs)
  have c: "concat (map (\<lambda>p. [GeometryDispose (geometry p), MaterialDispose (material p)]) ps) =
      concat (map (\<lambda>(g, m). [GeometryDispose g, MaterialDispose m])
        (map (\<lambda>p. (geometry p, material p)) ps))"
    for ps :: "part list"
    by (induction ps) simp_all
  show ?thesis
    using dispose_twice[of "fst sample_boat" "snd sample_boat"]
    by (simp add: c p ph d)
qed

end
